theory Spec2Isabelle
  imports Complex_Main
begin

section \<open>Data model (src/src/physics.js)\<close>

text \<open>
  In the physics code JavaScript numbers are modelled as the reals: the statements about
  it are about the formulas of the program in exact arithmetic, without rounding, NaN
  or infinities. The slot bounds of the board are the exception: whether the recorded
  ranges meet depends on the rounding of each operation, so the layout code is modelled
  in binary64 arithmetic (see \<open>fl\<close> below).

  A three-element array \<^verbatim>\<open>[x, y, z]\<close> is the record \<open>vec3\<close>; the field \<open>c0\<close> is index 0,
  \<open>c1\<close> index 1 and \<open>c2\<close> index 2.
\<close>

record vec3 =
  c0 :: real
  c1 :: real
  c2 :: real

text \<open>
  The vector helpers of src/src/math.js (\<^verbatim>\<open>vec3.add\<close>, \<^verbatim>\<open>subtract\<close>, \<^verbatim>\<open>scale\<close>,
  \<^verbatim>\<open>length\<close>, \<^verbatim>\<open>dot\<close>, \<^verbatim>\<open>distance\<close>), returning the vector they write to \<^verbatim>\<open>out\<close>.
  The physics code spells the same arithmetic out by hand; the properties below are
  stated with these.
\<close>

definition vec3_add :: "vec3 \<Rightarrow> vec3 \<Rightarrow> vec3" where
  "vec3_add a b = \<lparr>c0 = c0 a + c0 b, c1 = c1 a + c1 b, c2 = c2 a + c2 b\<rparr>"

definition vec3_subtract :: "vec3 \<Rightarrow> vec3 \<Rightarrow> vec3" where
  "vec3_subtract a b = \<lparr>c0 = c0 a - c0 b, c1 = c1 a - c1 b, c2 = c2 a - c2 b\<rparr>"

definition vec3_scale :: "vec3 \<Rightarrow> real \<Rightarrow> vec3" where
  "vec3_scale a s = \<lparr>c0 = c0 a * s, c1 = c1 a * s, c2 = c2 a * s\<rparr>"

definition vec3_length :: "vec3 \<Rightarrow> real" where
  "vec3_length a = sqrt (c0 a * c0 a + c1 a * c1 a + c2 a * c2 a)"

definition vec3_dot :: "vec3 \<Rightarrow> vec3 \<Rightarrow> real" where
  "vec3_dot a b = c0 a * c0 b + c1 a * c1 b + c2 a * c2 b"

definition vec3_distance :: "vec3 \<Rightarrow> vec3 \<Rightarrow> real" where
  "vec3_distance a b =
     (let dx = c0 b - c0 a;
          dy = c1 b - c1 a;
          dz = c2 b - c2 a
      in sqrt (dx * dx + dy * dy + dz * dz))"

text \<open>
  The class \<^verbatim>\<open>PhysicsBody\<close>. The field \<open>type\<close> is the string tag of the source.
  \<open>onCollision\<close> is \<open>True\<close> when a handler is installed and \<open>False\<close> when the field is
  \<^verbatim>\<open>null\<close>. The corners \<^verbatim>\<open>min\<close> and \<^verbatim>\<open>max\<close> exist only when the constructor was
  given both, hence the options. \<open>userData\<close> is reduced to its tag.
\<close>

record PhysicsBody =
  position :: vec3
  velocity :: vec3
  radius :: real
  mass :: real
  isStatic :: bool
  type :: string
  onCollision :: bool
  userData :: string
  min_box :: "vec3 option"
  max_box :: "vec3 option"
  height :: real

text \<open>The class \<^verbatim>\<open>Physics\<close> and its constructor.\<close>

record Physics =
  gravity :: real
  restitution :: real
  friction :: real
  bodies :: "PhysicsBody list"
  staticBodies :: "PhysicsBody list"

definition Physics_new :: Physics where
  "Physics_new =
     \<lparr>gravity = - 15, restitution = 6 / 10, friction = 98 / 100,
      bodies = [], staticBodies = []\<rparr>"

text \<open>
  Reading \<^verbatim>\<open>box.min[0]\<close> of a body that has no \<^verbatim>\<open>min\<close> throws a \<^verbatim>\<open>TypeError\<close>.
\<close>

datatype error = TypeError

section \<open>Collision resolution\<close>

text \<open>
  Each routine mutates the ball in place and may call \<^verbatim>\<open>ball.onCollision(obstacle)\<close>.
  The model returns the ball after the call together with the list of obstacles the
  handler was called with. The obstacle is never written to.
\<close>

definition sphereVsSphere :: "Physics \<Rightarrow> PhysicsBody \<Rightarrow> PhysicsBody \<Rightarrow> PhysicsBody \<times> PhysicsBody list" where
  "sphereVsSphere ph ball pin =
     (let dx = c0 (position ball) - c0 (position pin);
          dy = c1 (position ball) - c1 (position pin);
          dz = c2 (position ball) - c2 (position pin);
          distance = sqrt (dx * dx + dy * dy + dz * dz);
          minDist = radius ball + radius pin
      in if distance < minDist \<and> distance > 0 then
           let nx = dx / distance;
               ny = dy / distance;
               nz = dz / distance;
               overlap = minDist - distance;
               p = position ball;
               p' = \<lparr>c0 = c0 p + nx * overlap, c1 = c1 p + ny * overlap, c2 = c2 p + nz * overlap\<rparr>;
               v = velocity ball;
               dot = c0 v * nx + c1 v * ny + c2 v * nz;
               v' = \<lparr>c0 = c0 v - 2 * dot * nx * restitution ph,
                     c1 = c1 v - 2 * dot * ny * restitution ph,
                     c2 = c2 v - 2 * dot * nz * restitution ph\<rparr>
           in (ball\<lparr>position := p', velocity := v'\<rparr>, if onCollision ball then [pin] else [])
         else (ball, []))"

definition sphereVsCylinder :: "Physics \<Rightarrow> PhysicsBody \<Rightarrow> PhysicsBody \<Rightarrow> PhysicsBody \<times> PhysicsBody list" where
  "sphereVsCylinder ph ball cylinder =
     (let dx = c0 (position ball) - c0 (position cylinder);
          dz = c2 (position ball) - c2 (position cylinder);
          horizontalDistance = sqrt (dx * dx + dz * dz);
          minDist = radius ball + radius cylinder;
          withinHeight = (c1 (position ball) \<ge> c1 (position cylinder) - height cylinder / 2 \<and>
                          c1 (position ball) \<le> c1 (position cylinder) + height cylinder / 2)
      in if horizontalDistance < minDist \<and> withinHeight \<and> horizontalDistance > 0 then
           let nx = dx / horizontalDistance;
               nz = dz / horizontalDistance;
               overlap = minDist - horizontalDistance;
               p = position ball;
               p' = p\<lparr>c0 := c0 p + nx * overlap, c2 := c2 p + nz * overlap\<rparr>;
               v = velocity ball;
               dot = c0 v * nx + c2 v * nz;
               v' = v\<lparr>c0 := c0 v - 2 * dot * nx * restitution ph,
                      c2 := c2 v - 2 * dot * nz * restitution ph\<rparr>
           in (ball\<lparr>position := p', velocity := v'\<rparr>, if onCollision ball then [cylinder] else [])
         else (ball, []))"

definition sphereVsBox :: "Physics \<Rightarrow> PhysicsBody \<Rightarrow> PhysicsBody \<Rightarrow> error + PhysicsBody \<times> PhysicsBody list" where
  "sphereVsBox ph ball box =
     (case min_box box of
        None \<Rightarrow> Inl TypeError
      | Some bmin \<Rightarrow>
     (case max_box box of
        None \<Rightarrow> Inl TypeError
      | Some bmax \<Rightarrow>
     (let closestX = max (c0 bmin) (min (c0 (position ball)) (c0 bmax));
          closestY = max (c1 bmin) (min (c1 (position ball)) (c1 bmax));
          closestZ = max (c2 bmin) (min (c2 (position ball)) (c2 bmax));
          dx = c0 (position ball) - closestX;
          dy = c1 (position ball) - closestY;
          dz = c2 (position ball) - closestZ;
          distance = sqrt (dx * dx + dy * dy + dz * dz)
      in if distance < radius ball \<and> distance > 0 then
           let nx = dx / distance;
               ny = dy / distance;
               nz = dz / distance;
               overlap = radius ball - distance;
               p = position ball;
               p' = \<lparr>c0 = c0 p + nx * overlap, c1 = c1 p + ny * overlap, c2 = c2 p + nz * overlap\<rparr>;
               v = velocity ball;
               dot = c0 v * nx + c1 v * ny + c2 v * nz;
               v' = \<lparr>c0 = c0 v - 2 * dot * nx * restitution ph,
                     c1 = c1 v - 2 * dot * ny * restitution ph,
                     c2 = c2 v - 2 * dot * nz * restitution ph\<rparr>
           in Inr (ball\<lparr>position := p', velocity := v'\<rparr>, if onCollision ball then [box] else [])
         else if distance = 0 then
           let p = position ball;
               v = velocity ball
           in Inr (ball\<lparr>position := p\<lparr>c1 := c1 p + radius ball\<rparr>,
                         velocity := v\<lparr>c1 := \<bar>c1 v\<bar> * restitution ph\<rparr>\<rparr>, [])
         else Inr (ball, []))))"

definition checkCollision :: "Physics \<Rightarrow> PhysicsBody \<Rightarrow> PhysicsBody \<Rightarrow> error + PhysicsBody \<times> PhysicsBody list" where
  "checkCollision ph ball staticBody =
     (if type staticBody = ''sphere'' then Inr (sphereVsSphere ph ball staticBody)
      else if type staticBody = ''box'' then sphereVsBox ph ball staticBody
      else if type staticBody = ''cylinder'' then Inr (sphereVsCylinder ph ball staticBody)
      else Inr (ball, []))"

subsection \<open>Vocabulary for the contact geometry\<close>

text \<open>
  The contact normal of the sphere and box tests: the unit vector from \<open>q\<close> (the
  obstacle's centre, or the closest point of the box) to the ball's centre \<open>p\<close>, that is
  \<^verbatim>\<open>(dx / distance, dy / distance, dz / distance)\<close>.
\<close>

definition normalTo :: "vec3 \<Rightarrow> vec3 \<Rightarrow> vec3" where
  "normalTo q p = vec3_scale (vec3_subtract p q) (1 / vec3_distance q p)"

text \<open>
  The cylinder test works in the XZ plane: \<open>horizontal p\<close> is \<open>p\<close> with its y component
  dropped, so the horizontal distance of two points is the distance of their
  projections and the cylinder's normal is the normal between the projections.
\<close>

definition horizontal :: "vec3 \<Rightarrow> vec3" where
  "horizontal p = p\<lparr>c1 := 0\<rparr>"

text \<open>The closest point of the box to \<open>p\<close>, the per-axis clamp of \<^verbatim>\<open>sphereVsBox\<close>.\<close>

definition closestPoint :: "vec3 \<Rightarrow> vec3 \<Rightarrow> vec3 \<Rightarrow> vec3" where
  "closestPoint bmin bmax p =
     \<lparr>c0 = max (c0 bmin) (min (c0 p) (c0 bmax)),
      c1 = max (c1 bmin) (min (c1 p) (c1 bmax)),
      c2 = max (c2 bmin) (min (c2 p) (c2 bmax))\<rparr>"

text \<open>The height band of the cylinder test.\<close>

definition withinHeight :: "PhysicsBody \<Rightarrow> PhysicsBody \<Rightarrow> bool" where
  "withinHeight ball cylinder \<longleftrightarrow>
     c1 (position ball) \<ge> c1 (position cylinder) - height cylinder / 2 \<and>
     c1 (position ball) \<le> c1 (position cylinder) + height cylinder / 2"

section \<open>The physics step\<close>

text \<open>
  \<^verbatim>\<open>Math.random()\<close> is an input of the model: \<open>rnd\<close> is the sequence of numbers the
  generator returns and the counter \<open>n\<close> is the index of the next draw.
\<close>

text \<open>The inner loop of \<^verbatim>\<open>update\<close>: the ball against every static body, in order.\<close>

fun collideAll :: "Physics \<Rightarrow> PhysicsBody \<Rightarrow> PhysicsBody list \<Rightarrow> error + PhysicsBody \<times> PhysicsBody list" where
  "collideAll ph body [] = Inr (body, [])"
| "collideAll ph body (staticBody # rest) =
     (case checkCollision ph body staticBody of
        Inl e \<Rightarrow> Inl e
      | Inr (body', calls) \<Rightarrow>
          (case collideAll ph body' rest of
             Inl e \<Rightarrow> Inl e
           | Inr (body'', calls') \<Rightarrow> Inr (body'', calls @ calls')))"

text \<open>Gravity, friction and the position update of one body, for the step \<open>fixedDelta\<close>.\<close>

definition integrate :: "Physics \<Rightarrow> real \<Rightarrow> PhysicsBody \<Rightarrow> PhysicsBody" where
  "integrate ph fixedDelta body =
     (let v = velocity body;
          vy = c1 v + gravity ph * fixedDelta;
          vx = c0 v * friction ph;
          vz = c2 v * friction ph;
          p = position body
      in body\<lparr>velocity := \<lparr>c0 = vx, c1 = vy, c2 = vz\<rparr>,
              position := \<lparr>c0 = c0 p + vx * fixedDelta,
                           c1 = c1 p + vy * fixedDelta,
                           c2 = c2 p + vz * fixedDelta\<rparr>\<rparr>)"

text \<open>The random perturbation that ends the loop body.\<close>

definition perturb :: "(nat \<Rightarrow> real) \<Rightarrow> nat \<Rightarrow> PhysicsBody \<Rightarrow> PhysicsBody \<times> nat" where
  "perturb rnd n body =
     (let v = velocity body
      in if \<bar>c0 v\<bar> > 1 / 10 \<or> \<bar>c1 v\<bar> > 1 / 10
         then (body\<lparr>velocity := v\<lparr>c0 := c0 v + (rnd n - 1 / 2) * (1 / 10)\<rparr>\<rparr>, Suc n)
         else (body, n))"

text \<open>The body of the outer loop, for one body.\<close>

definition updateBody :: "Physics \<Rightarrow> real \<Rightarrow> (nat \<Rightarrow> real) \<Rightarrow> nat \<Rightarrow> PhysicsBody \<Rightarrow> error + PhysicsBody \<times> PhysicsBody list \<times> nat" where
  "updateBody ph fixedDelta rnd n body =
     (if isStatic body then Inr (body, [], n)
      else case collideAll ph (integrate ph fixedDelta body) (staticBodies ph) of
             Inl e \<Rightarrow> Inl e
           | Inr (body', calls) \<Rightarrow>
               (let (body'', n') = perturb rnd n body' in Inr (body'', calls, n')))"




text \<open>The constructor of \<^verbatim>\<open>PhysicsBody\<close> with no options given.\<close>

definition PhysicsBody_new :: PhysicsBody where
  "PhysicsBody_new =
     \<lparr>position = \<lparr>c0 = 0, c1 = 0, c2 = 0\<rparr>, velocity = \<lparr>c0 = 0, c1 = 0, c2 = 0\<rparr>,
      radius = 2 / 10, mass = 1, isStatic = False, type = ''sphere'', onCollision = False,
      userData = [], min_box = None, max_box = None, height = 1\<rparr>"

section \<open>Double-precision arithmetic\<close>







section \<open>The machine (pachinko.js): slots and the ball lifecycle\<close>

text \<open>
  The field \<^verbatim>\<open>x\<close> of a slot is \<open>slot_x\<close>. Of a ball the model keeps the physics body and
  the two fields the lifecycle reads; \<open>onScore\<close> is \<open>True\<close> when a handler is installed.
  Of the machine it keeps the dimensions, the balls and the slots; the meshes and the
  model matrices, which only the renderer reads, are left out.
\<close>

record Slot =
  slot_x :: real
  minX :: real
  maxX :: real
  points :: int

record Ball =
  body :: PhysicsBody
  scored :: bool
  onScore :: bool

record PachinkoMachine =
  width :: real
  height_machine :: real
  depth :: real
  balls :: "Ball list"
  slots :: "Slot list"



text \<open>
  The loop over the slots in \<^verbatim>\<open>PachinkoMachine.update\<close>: the first slot, in order, with
  \<^verbatim>\<open>x >= slot.minX && x <= slot.maxX\<close>; the loop stops there.
\<close>

fun slotLoop :: "Slot list \<Rightarrow> real \<Rightarrow> Slot option" where
  "slotLoop [] x = None"
| "slotLoop (slot # rest) x =
     (if x \<ge> minX slot \<and> x \<le> maxX slot then Some slot else slotLoop rest x)"


text \<open>
  The body of the loop over the balls, for one ball: the ball after it, the points
  \<^verbatim>\<open>ball.onScore\<close> was called with, and whether the ball is removed.
\<close>

definition updateBall :: "Slot list \<Rightarrow> Ball \<Rightarrow> Ball \<times> int list \<times> bool" where
  "updateBall sl ball =
     (let (ball', events) =
            (if \<not> scored ball \<and> c1 (position (body ball)) < 1 / 2 then
               (case slotLoop sl (c0 (position (body ball))) of
                  None \<Rightarrow> (ball, [])
                | Some slot \<Rightarrow> (ball\<lparr>scored := True\<rparr>, if onScore ball then [points slot] else []))
             else (ball, []))
      in (ball', events, c1 (position (body ball)) < - 2))"

text \<open>
  \<^verbatim>\<open>PachinkoMachine.update\<close> visits the balls from the last index down to 0 and splices
  the removed ones out: the machine after it, the score events in the order they were
  emitted, and the bodies handed to \<^verbatim>\<open>physics.removeBody\<close>.
\<close>

definition update_machine :: "PachinkoMachine \<Rightarrow> PachinkoMachine \<times> int list \<times> PhysicsBody list" where
  "update_machine m =
     (let (balls', events, removed) =
            foldr (\<lambda>ball (acc, events, removed).
                     let (ball', ev, gone) = updateBall (slots m) ball
                     in (if gone then acc else ball' # acc,
                         events @ ev,
                         removed @ (if gone then [body ball'] else [])))
                  (balls m) ([], [], [])
      in (m\<lparr>balls := balls'\<rparr>, events, removed))"

text \<open>
  The life of one ball over consecutive frames: before each lifecycle update the physics
  step has left some state in the ball's body (any state at all, given by the list),
  and after an update that removes the ball there are no further updates of it. The
  result is every score event the ball emitted, in order.
\<close>

fun frames :: "Slot list \<Rightarrow> Ball \<Rightarrow> PhysicsBody list \<Rightarrow> int list" where
  "frames sl ball [] = []"
| "frames sl ball (b # bs) =
     (let (ball', events, gone) = updateBall sl (ball\<lparr>body := b\<rparr>)
      in events @ (if gone then [] else frames sl ball' bs))"

section \<open>The resolvers, branch by branch\<close>

text \<open>
  What each routine returns in each branch of its test, with the hand-written arithmetic
  read as vector operations.
\<close>

lemma sphereVsSphere_hit:
  assumes "0 < vec3_distance (position pin) (position ball)"
    and "vec3_distance (position pin) (position ball) < radius ball + radius pin"
  shows "sphereVsSphere ph ball pin =
     (ball\<lparr>position := vec3_add (position ball)
               (vec3_scale (normalTo (position pin) (position ball))
                  (radius ball + radius pin - vec3_distance (position pin) (position ball))),
            velocity := vec3_subtract (velocity ball)
               (vec3_scale (normalTo (position pin) (position ball))
                  (2 * vec3_dot (velocity ball) (normalTo (position pin) (position ball)) * restitution ph))\<rparr>,
      if onCollision ball then [pin] else [])"
  using assms
  by (simp add: sphereVsSphere_def vec3_distance_def Let_def normalTo_def vec3_add_def
      vec3_scale_def vec3_subtract_def vec3_dot_def mult.commute)

lemma sphereVsSphere_miss:
  assumes "\<not> (0 < vec3_distance (position pin) (position ball)
            \<and> vec3_distance (position pin) (position ball) < radius ball + radius pin)"
  shows "sphereVsSphere ph ball pin = (ball, [])"
  using assms by (auto simp add: sphereVsSphere_def vec3_distance_def Let_def)


lemma sphereVsCylinder_miss:
  assumes "\<not> (0 < vec3_distance (horizontal (position cyl)) (horizontal (position ball))
            \<and> vec3_distance (horizontal (position cyl)) (horizontal (position ball)) < radius ball + radius cyl
            \<and> withinHeight ball cyl)"
  shows "sphereVsCylinder ph ball cyl = (ball, [])"
  using assms
  by (auto simp add: sphereVsCylinder_def vec3_distance_def Let_def horizontal_def withinHeight_def)

lemma closestPoint_fold:
  "max (c0 bmin) (min (c0 p) (c0 bmax)) = c0 (closestPoint bmin bmax p)"
  "max (c1 bmin) (min (c1 p) (c1 bmax)) = c1 (closestPoint bmin bmax p)"
  "max (c2 bmin) (min (c2 p) (c2 bmax)) = c2 (closestPoint bmin bmax p)"
  by (simp_all add: closestPoint_def)


lemma sphereVsBox_inside:
  assumes "min_box box = Some bmin" and "max_box box = Some bmax"
    and "vec3_distance (closestPoint bmin bmax (position ball)) (position ball) = 0"
  shows "sphereVsBox ph ball box =
     Inr (ball\<lparr>position := (position ball)\<lparr>c1 := c1 (position ball) + radius ball\<rparr>,
               velocity := (velocity ball)\<lparr>c1 := \<bar>c1 (velocity ball)\<bar> * restitution ph\<rparr>\<rparr>, [])"
  unfolding sphereVsBox_def assms(1,2) option.case closestPoint_fold
  using assms(3)
  by (simp add: vec3_distance_def Let_def)

lemma sphereVsBox_miss:
  assumes "min_box box = Some bmin" and "max_box box = Some bmax"
    and "radius ball \<le> vec3_distance (closestPoint bmin bmax (position ball)) (position ball)"
    and "vec3_distance (closestPoint bmin bmax (position ball)) (position ball) \<noteq> 0"
  shows "sphereVsBox ph ball box = Inr (ball, [])"
  unfolding sphereVsBox_def assms(1,2) option.case closestPoint_fold
  using assms(3,4)
  by (simp add: vec3_distance_def Let_def)

lemma sqrt_scaled:
  fixes k :: real
  assumes "0 \<le> k"
  shows "sqrt (a * k * (a * k) + b * k * (b * k) + c * k * (c * k)) = sqrt (a * a + b * b + c * c) * k"
proof -
  have "a * k * (a * k) + b * k * (b * k) + c * k * (c * k) = (a * a + b * b + c * c) * (k * k)"
    by (simp add: algebra_simps)
  then show ?thesis using assms by (simp add: real_sqrt_mult)
qed

lemma distance_squared:
  "vec3_distance q p * vec3_distance q p = vec3_dot (vec3_subtract p q) (vec3_subtract p q)"
proof -
  have "0 \<le> (c0 p - c0 q) * (c0 p - c0 q) + (c1 p - c1 q) * (c1 p - c1 q) + (c2 p - c2 q) * (c2 p - c2 q)"
    by (intro add_nonneg_nonneg) simp_all
  then show ?thesis
    by (simp add: vec3_distance_def Let_def vec3_dot_def vec3_subtract_def)
qed

lemma normalTo_dot_self:
  assumes "0 < vec3_distance q p"
  shows "vec3_dot (normalTo q p) (normalTo q p) = 1"
proof -
  let ?d = "vec3_distance q p"
  have "vec3_dot (normalTo q p) (normalTo q p)
      = vec3_dot (vec3_subtract p q) (vec3_subtract p q) / (?d * ?d)"
    by (simp add: normalTo_def vec3_dot_def vec3_scale_def vec3_subtract_def add_divide_distrib)
  also have "\<dots> = 1" using assms by (simp add: distance_squared [symmetric])
  finally show ?thesis .
qed

lemma normalTo_unit:
  assumes "0 < vec3_distance q p"
  shows "vec3_length (normalTo q p) = 1"
proof -
  have "vec3_length (normalTo q p) = sqrt (vec3_dot (normalTo q p) (normalTo q p))"
    by (simp add: vec3_length_def vec3_dot_def)
  then show ?thesis using normalTo_dot_self [OF assms] by simp
qed

lemma pushed_distance:
  assumes "0 < vec3_distance q p" and "0 \<le> m"
  shows "vec3_distance q (vec3_add p (vec3_scale (normalTo q p) (m - vec3_distance q p))) = m"
proof -
  let ?d = "vec3_distance q p"
  have d: "?d \<noteq> 0" using assms by simp
  have x: "\<And>a b. a + (a - b) * (1 / ?d) * (m - ?d) - b = (a - b) * (m / ?d)"
    using d by (simp add: field_simps)
  have "vec3_distance q (vec3_add p (vec3_scale (normalTo q p) (m - ?d)))
      = sqrt ((c0 p - c0 q) * (m / ?d) * ((c0 p - c0 q) * (m / ?d))
         + (c1 p - c1 q) * (m / ?d) * ((c1 p - c1 q) * (m / ?d))
         + (c2 p - c2 q) * (m / ?d) * ((c2 p - c2 q) * (m / ?d)))"
    unfolding vec3_distance_def[of q "vec3_add _ _"] Let_def
    by (simp only: vec3_add_def vec3_scale_def normalTo_def vec3_subtract_def vec3.simps x)
  also have "\<dots> = sqrt ((c0 p - c0 q) * (c0 p - c0 q) + (c1 p - c1 q) * (c1 p - c1 q) + (c2 p - c2 q) * (c2 p - c2 q)) * (m / ?d)"
    using assms by (intro sqrt_scaled) simp
  also have "\<dots> = ?d * (m / ?d)"
    by (simp add: vec3_distance_def Let_def)
  also have "\<dots> = m" using d by simp
  finally show ?thesis .
qed

lemma reflect_normal:
  assumes "vec3_dot n n = 1"
  shows "vec3_dot (vec3_subtract v (vec3_scale n (2 * vec3_dot v n * e))) n = (1 - 2 * e) * vec3_dot v n"
proof -
  have "vec3_dot (vec3_subtract v (vec3_scale n (2 * vec3_dot v n * e))) n
      = vec3_dot v n - 2 * vec3_dot v n * e * vec3_dot n n"
    by (simp add: vec3_dot_def vec3_subtract_def vec3_scale_def algebra_simps)
  then show ?thesis using assms by (simp add: algebra_simps)
qed

lemma reflect_tangent:
  assumes "vec3_dot n n = 1"
  shows "vec3_subtract (vec3_subtract v (vec3_scale n (2 * vec3_dot v n * e)))
           (vec3_scale n (vec3_dot (vec3_subtract v (vec3_scale n (2 * vec3_dot v n * e))) n))
       = vec3_subtract v (vec3_scale n (vec3_dot v n))"
  unfolding reflect_normal [OF assms]
  by (simp add: vec3_subtract_def vec3_scale_def algebra_simps)

section \<open>Separation and velocity response\<close>

text \<open>
  Claim C4. A ball overlapping a static sphere at centre distance \<open>d\<close> with
  \<open>0 < d < rBall + rObstacle\<close> is moved by one call of \<^verbatim>\<open>sphereVsSphere\<close> along the
  contact normal, a unit vector, by the penetration depth \<open>rBall + rObstacle - d\<close>, and
  afterwards the centre distance is \<open>rBall + rObstacle\<close> exactly. The routine writes to
  the ball only: the obstacle is an argument of the model and not part of its result.
\<close>

theorem sphereVsSphere_separates:
  assumes "0 < vec3_distance (position pin) (position ball)"
    and "vec3_distance (position pin) (position ball) < radius ball + radius pin"
  shows "position (fst (sphereVsSphere ph ball pin)) =
           vec3_add (position ball)
             (vec3_scale (normalTo (position pin) (position ball))
                (radius ball + radius pin - vec3_distance (position pin) (position ball)))
       \<and> vec3_length (normalTo (position pin) (position ball)) = 1
       \<and> vec3_distance (position pin) (position (fst (sphereVsSphere ph ball pin)))
           = radius ball + radius pin"
proof -
  have m: "0 \<le> radius ball + radius pin" using assms by simp
  show ?thesis
    by (simp add: sphereVsSphere_hit [OF assms] normalTo_unit [OF assms(1)]
        pushed_distance [OF assms(1) m])
qed

theorem sphereVsSphere_separates_witness:
  "0 < vec3_distance (position (PhysicsBody_new\<lparr>radius := 1\<rparr>))
         (position (PhysicsBody_new\<lparr>position := \<lparr>c0 = 1, c1 = 0, c2 = 0\<rparr>\<rparr>))
   \<and> vec3_distance (position (PhysicsBody_new\<lparr>radius := 1\<rparr>))
         (position (PhysicsBody_new\<lparr>position := \<lparr>c0 = 1, c1 = 0, c2 = 0\<rparr>\<rparr>))
       < radius (PhysicsBody_new\<lparr>position := \<lparr>c0 = 1, c1 = 0, c2 = 0\<rparr>\<rparr>)
         + radius (PhysicsBody_new\<lparr>radius := 1\<rparr>)
   \<and> vec3_distance (position (PhysicsBody_new\<lparr>radius := 1\<rparr>))
        (position (fst (sphereVsSphere Physics_new
           (PhysicsBody_new\<lparr>position := \<lparr>c0 = 1, c1 = 0, c2 = 0\<rparr>\<rparr>)
           (PhysicsBody_new\<lparr>radius := 1\<rparr>)))) = 12 / 10"
proof -
  let ?ball = "PhysicsBody_new\<lparr>position := \<lparr>c0 = 1, c1 = 0, c2 = 0\<rparr>\<rparr>"
  let ?pin = "PhysicsBody_new\<lparr>radius := 1\<rparr>"
  have d: "vec3_distance (position ?pin) (position ?ball) = 1"
    by (simp add: PhysicsBody_new_def vec3_distance_def)
  have r: "radius ?ball + radius ?pin = 12 / 10"
    by (simp add: PhysicsBody_new_def)
  have h1: "0 < vec3_distance (position ?pin) (position ?ball)"
    by (simp only: d zero_less_one)
  have h2: "vec3_distance (position ?pin) (position ?ball) < radius ?ball + radius ?pin"
    unfolding d r by simp
  from sphereVsSphere_separates [OF h1 h2, of Physics_new]
  have "vec3_distance (position ?pin) (position (fst (sphereVsSphere Physics_new ?ball ?pin)))
          = radius ?ball + radius ?pin"
    by blast
  with h1 h2 r show ?thesis by simp
qed

text \<open>
  What the velocity update does to the component along a unit normal \<open>n\<close>: it is
  multiplied by \<open>1 - 2 * restitution\<close>; the rest of the velocity is kept.
\<close>

lemma sphereVsSphere_normal_component:
  assumes "0 < vec3_distance (position pin) (position ball)"
    and "vec3_distance (position pin) (position ball) < radius ball + radius pin"
  shows "vec3_dot (velocity (fst (sphereVsSphere ph ball pin))) (normalTo (position pin) (position ball))
       = (1 - 2 * restitution ph) * vec3_dot (velocity ball) (normalTo (position pin) (position ball))"
  by (simp add: sphereVsSphere_hit [OF assms] reflect_normal [OF normalTo_dot_self [OF assms(1)]])

lemma sphereVsSphere_tangential_component:
  assumes "0 < vec3_distance (position pin) (position ball)"
    and "vec3_distance (position pin) (position ball) < radius ball + radius pin"
  shows "vec3_subtract (velocity (fst (sphereVsSphere ph ball pin)))
           (vec3_scale (normalTo (position pin) (position ball))
              (vec3_dot (velocity (fst (sphereVsSphere ph ball pin)))
                 (normalTo (position pin) (position ball))))
       = vec3_subtract (velocity ball)
           (vec3_scale (normalTo (position pin) (position ball))
              (vec3_dot (velocity ball) (normalTo (position pin) (position ball))))"
  by (simp add: sphereVsSphere_hit [OF assms] reflect_tangent [OF normalTo_dot_self [OF assms(1)]])

text \<open>
  Claim C1 says that a resolved collision replaces the velocity component along the
  contact normal by \<open>- restitution\<close> times its old value. Here a ball of radius 0.2 at
  \<open>(1, 0, 0)\<close> moves with velocity \<open>(-1, 0, 0)\<close> towards a static sphere of radius 1 at
  the origin, in a world with the constructor's restitution 0.6. The contact normal is
  \<open>(1, 0, 0)\<close> and the normal component before the call is \<open>-1\<close>; after the call it is
  \<open>0.2\<close>, where \<open>- restitution\<close> times the old value is \<open>0.6\<close>.
\<close>

theorem sphereVsSphere_restitution_example:
  "sphereVsSphere Physics_new
     (PhysicsBody_new\<lparr>position := \<lparr>c0 = 1, c1 = 0, c2 = 0\<rparr>,
                      velocity := \<lparr>c0 = - 1, c1 = 0, c2 = 0\<rparr>\<rparr>)
     (PhysicsBody_new\<lparr>radius := 1\<rparr>)
   = (PhysicsBody_new\<lparr>position := \<lparr>c0 = 12 / 10, c1 = 0, c2 = 0\<rparr>,
                       velocity := \<lparr>c0 = 2 / 10, c1 = 0, c2 = 0\<rparr>\<rparr>, [])
   \<and> normalTo (position (PhysicsBody_new\<lparr>radius := 1\<rparr>)) \<lparr>c0 = 1, c1 = 0, c2 = 0\<rparr>
       = \<lparr>c0 = 1, c1 = 0, c2 = 0\<rparr>
   \<and> vec3_dot \<lparr>c0 = - 1, c1 = 0, c2 = 0\<rparr> \<lparr>c0 = 1, c1 = 0, c2 = 0\<rparr> = - 1
   \<and> vec3_dot \<lparr>c0 = 2 / 10, c1 = 0, c2 = 0\<rparr> \<lparr>c0 = 1, c1 = 0, c2 = 0\<rparr> = 2 / 10
   \<and> - restitution Physics_new * (- 1) = 6 / 10"
  by (simp add: sphereVsSphere_def PhysicsBody_new_def Physics_new_def Let_def
      normalTo_def vec3_distance_def vec3_scale_def vec3_subtract_def vec3_dot_def)



section \<open>The cylinder's height band and the degenerate contacts\<close>

text \<open>
  Claim C6. \<^verbatim>\<open>sphereVsCylinder\<close> never changes the ball's vertical velocity, and when the
  ball's y position is outside the band \<open>[cylinder.y - h/2, cylinder.y + h/2]\<close> the call
  changes nothing and calls no handler, whatever the horizontal overlap.
\<close>

theorem sphereVsCylinder_vertical:
  "c1 (velocity (fst (sphereVsCylinder ph ball cylinder))) = c1 (velocity ball)
   \<and> (\<not> withinHeight ball cylinder \<longrightarrow> sphereVsCylinder ph ball cylinder = (ball, []))"
  by (simp add: sphereVsCylinder_def Let_def withinHeight_def)

theorem sphereVsCylinder_vertical_witness:
  "\<not> withinHeight (PhysicsBody_new\<lparr>position := \<lparr>c0 = 1, c1 = 5, c2 = 0\<rparr>, onCollision := True\<rparr>)
        (PhysicsBody_new\<lparr>type := ''cylinder'', radius := 1\<rparr>)
   \<and> vec3_distance (horizontal (position (PhysicsBody_new\<lparr>type := ''cylinder'', radius := 1\<rparr>)))
        (horizontal \<lparr>c0 = 1, c1 = 5, c2 = 0\<rparr>) = 1
   \<and> radius (PhysicsBody_new\<lparr>position := \<lparr>c0 = 1, c1 = 5, c2 = 0\<rparr>, onCollision := True\<rparr>)
       + radius (PhysicsBody_new\<lparr>type := ''cylinder'', radius := 1\<rparr>) = 12 / 10
   \<and> sphereVsCylinder Physics_new
        (PhysicsBody_new\<lparr>position := \<lparr>c0 = 1, c1 = 5, c2 = 0\<rparr>, onCollision := True\<rparr>)
        (PhysicsBody_new\<lparr>type := ''cylinder'', radius := 1\<rparr>)
       = (PhysicsBody_new\<lparr>position := \<lparr>c0 = 1, c1 = 5, c2 = 0\<rparr>, onCollision := True\<rparr>, [])"
proof -
  let ?ball = "PhysicsBody_new\<lparr>position := \<lparr>c0 = 1, c1 = 5, c2 = 0\<rparr>, onCollision := True\<rparr>"
  let ?cyl = "PhysicsBody_new\<lparr>type := ''cylinder'', radius := 1\<rparr>"
  have h: "\<not> withinHeight ?ball ?cyl"
    by (simp add: withinHeight_def PhysicsBody_new_def)
  have d: "vec3_distance (horizontal (position ?cyl)) (horizontal \<lparr>c0 = 1, c1 = 5, c2 = 0\<rparr>) = 1"
    by (simp add: vec3_distance_def horizontal_def PhysicsBody_new_def)
  have r: "radius ?ball + radius ?cyl = 12 / 10"
    by (simp add: PhysicsBody_new_def)
  from sphereVsCylinder_vertical [of Physics_new ?ball ?cyl] h
  have "sphereVsCylinder Physics_new ?ball ?cyl = (?ball, [])" by blast
  with h d r show ?thesis by blast
qed

text \<open>
  Claim C8. When the ball's centre coincides with the obstacle's centre (distance 0, for
  the cylinder the horizontal distance), \<^verbatim>\<open>sphereVsSphere\<close> and \<^verbatim>\<open>sphereVsCylinder\<close> leave
  the ball as it is and call no handler.
\<close>

theorem zero_distance_is_skipped:
  "(vec3_distance (position pin) (position ball) = 0 \<longrightarrow>
      sphereVsSphere ph ball pin = (ball, []))
   \<and> (vec3_distance (horizontal (position cylinder)) (horizontal (position ball)) = 0 \<longrightarrow>
      sphereVsCylinder ph ball cylinder = (ball, []))"
  by (simp add: sphereVsSphere_miss sphereVsCylinder_miss)

theorem zero_distance_is_skipped_witness:
  "vec3_distance (position (PhysicsBody_new\<lparr>radius := 1\<rparr>))
      (position (PhysicsBody_new\<lparr>velocity := \<lparr>c0 = 1, c1 = 2, c2 = 3\<rparr>, onCollision := True\<rparr>)) = 0
   \<and> sphereVsSphere Physics_new
        (PhysicsBody_new\<lparr>velocity := \<lparr>c0 = 1, c1 = 2, c2 = 3\<rparr>, onCollision := True\<rparr>)
        (PhysicsBody_new\<lparr>radius := 1\<rparr>)
       = (PhysicsBody_new\<lparr>velocity := \<lparr>c0 = 1, c1 = 2, c2 = 3\<rparr>, onCollision := True\<rparr>, [])
   \<and> vec3_distance (horizontal (position (PhysicsBody_new\<lparr>type := ''cylinder''\<rparr>)))
      (horizontal (position (PhysicsBody_new\<lparr>velocity := \<lparr>c0 = 1, c1 = 2, c2 = 3\<rparr>, onCollision := True\<rparr>))) = 0
   \<and> sphereVsCylinder Physics_new
        (PhysicsBody_new\<lparr>velocity := \<lparr>c0 = 1, c1 = 2, c2 = 3\<rparr>, onCollision := True\<rparr>)
        (PhysicsBody_new\<lparr>type := ''cylinder''\<rparr>)
       = (PhysicsBody_new\<lparr>velocity := \<lparr>c0 = 1, c1 = 2, c2 = 3\<rparr>, onCollision := True\<rparr>, [])"
proof -
  let ?ball = "PhysicsBody_new\<lparr>velocity := \<lparr>c0 = 1, c1 = 2, c2 = 3\<rparr>, onCollision := True\<rparr>"
  let ?pin = "PhysicsBody_new\<lparr>radius := 1\<rparr>"
  let ?cyl = "PhysicsBody_new\<lparr>type := ''cylinder''\<rparr>"
  have d1: "vec3_distance (position ?pin) (position ?ball) = 0"
    by (simp add: vec3_distance_def PhysicsBody_new_def)
  have d2: "vec3_distance (horizontal (position ?cyl)) (horizontal (position ?ball)) = 0"
    by (simp add: vec3_distance_def horizontal_def PhysicsBody_new_def)
  from zero_distance_is_skipped [of ?pin ?ball Physics_new ?cyl] d1 d2
  have "sphereVsSphere Physics_new ?ball ?pin = (?ball, [])"
    and "sphereVsCylinder Physics_new ?ball ?cyl = (?ball, [])"
    by blast+
  with d1 d2 show ?thesis by blast
qed

section \<open>The containment path of the box test\<close>

lemma inside_closestPoint:
  assumes "c0 bmin \<le> c0 p" "c0 p \<le> c0 bmax"
    and "c1 bmin \<le> c1 p" "c1 p \<le> c1 bmax"
    and "c2 bmin \<le> c2 p" "c2 p \<le> c2 bmax"
  shows "closestPoint bmin bmax p = p"
  using assms by (simp add: closestPoint_def)

lemma distance_self: "vec3_distance p p = 0"
  by (simp add: vec3_distance_def)

text \<open>
  Claim C9 says that for a ball whose centre is inside the box (closest-point distance 0)
  \<^verbatim>\<open>sphereVsBox\<close> raises y by the radius, sets the vertical velocity to a positive value
  scaled by restitution, and changes nothing else. The value the code stores is
  \<open>\<bar>v\<^sub>y\<bar> * restitution\<close>, which is zero for a ball with no vertical velocity: here a ball
  at rest inside the floor box is raised by its radius and its vertical velocity stays 0.
\<close>

theorem sphereVsBox_containment_zero_velocity:
  "sphereVsBox Physics_new
     (PhysicsBody_new\<lparr>position := \<lparr>c0 = 0, c1 = - 1 / 2, c2 = 0\<rparr>\<rparr>)
     (PhysicsBody_new\<lparr>type := ''box'', isStatic := True,
        min_box := Some \<lparr>c0 = - 3, c1 = - 1, c2 = - 8 / 10\<rparr>,
        max_box := Some \<lparr>c0 = 3, c1 = 0, c2 = 8 / 10\<rparr>, userData := ''floor''\<rparr>)
   = Inr (PhysicsBody_new\<lparr>position := \<lparr>c0 = 0, c1 = - 3 / 10, c2 = 0\<rparr>\<rparr>, [])
   \<and> \<not> 0 < c1 (velocity (PhysicsBody_new\<lparr>position := \<lparr>c0 = 0, c1 = - 3 / 10, c2 = 0\<rparr>\<rparr>))"
  by (simp add: sphereVsBox_def PhysicsBody_new_def Physics_new_def Let_def)

text \<open>
  Claim C9, amended. For a ball whose centre is inside the box (the closest point of the
  box is the centre itself, distance 0) \<^verbatim>\<open>sphereVsBox\<close> raises the ball's y position by
  exactly the ball's radius, sets the vertical velocity to \<open>\<bar>v\<^sub>y\<bar> * restitution\<close>, changes
  nothing else and calls no handler. With a positive restitution the new vertical
  velocity is never negative, and it is positive exactly when the old one is not 0.
\<close>

theorem sphereVsBox_containment:
  assumes "min_box box = Some bmin" and "max_box box = Some bmax"
    and "vec3_distance (closestPoint bmin bmax (position ball)) (position ball) = 0"
  shows "sphereVsBox ph ball box =
           Inr (ball\<lparr>position := (position ball)\<lparr>c1 := c1 (position ball) + radius ball\<rparr>,
                     velocity := (velocity ball)\<lparr>c1 := \<bar>c1 (velocity ball)\<bar> * restitution ph\<rparr>\<rparr>, [])
       \<and> (0 < restitution ph \<longrightarrow>
            0 \<le> \<bar>c1 (velocity ball)\<bar> * restitution ph
            \<and> (0 < \<bar>c1 (velocity ball)\<bar> * restitution ph \<longleftrightarrow> c1 (velocity ball) \<noteq> 0))"
  by (simp add: sphereVsBox_inside [OF assms] zero_less_mult_iff)

theorem sphereVsBox_containment_witness:
  "sphereVsBox Physics_new
     (PhysicsBody_new\<lparr>position := \<lparr>c0 = 0, c1 = - 1 / 2, c2 = 0\<rparr>,
                      velocity := \<lparr>c0 = 1, c1 = - 5, c2 = 0\<rparr>, onCollision := True\<rparr>)
     (PhysicsBody_new\<lparr>type := ''box'', isStatic := True,
        min_box := Some \<lparr>c0 = - 3, c1 = - 1, c2 = - 8 / 10\<rparr>,
        max_box := Some \<lparr>c0 = 3, c1 = 0, c2 = 8 / 10\<rparr>, userData := ''floor''\<rparr>)
   = Inr (PhysicsBody_new\<lparr>position := \<lparr>c0 = 0, c1 = - 3 / 10, c2 = 0\<rparr>,
                           velocity := \<lparr>c0 = 1, c1 = 3, c2 = 0\<rparr>, onCollision := True\<rparr>, [])"
proof -
  let ?ball = "PhysicsBody_new\<lparr>position := \<lparr>c0 = 0, c1 = - 1 / 2, c2 = 0\<rparr>,
                      velocity := \<lparr>c0 = 1, c1 = - 5, c2 = 0\<rparr>, onCollision := True\<rparr>"
  let ?bmin = "\<lparr>c0 = - 3, c1 = - 1, c2 = - 8 / 10\<rparr>"
  let ?bmax = "\<lparr>c0 = 3, c1 = 0, c2 = 8 / 10\<rparr>"
  let ?box = "PhysicsBody_new\<lparr>type := ''box'', isStatic := True,
        min_box := Some ?bmin, max_box := Some ?bmax, userData := ''floor''\<rparr>"
  have a: "min_box ?box = Some ?bmin" and b: "max_box ?box = Some ?bmax" by simp_all
  have "closestPoint ?bmin ?bmax (position ?ball) = position ?ball"
    by (rule inside_closestPoint) (simp_all add: PhysicsBody_new_def)
  then have c: "vec3_distance (closestPoint ?bmin ?bmax (position ?ball)) (position ?ball) = 0"
    by (simp only: distance_self)
  from sphereVsBox_containment [OF a b c, of Physics_new]
  show ?thesis by (simp add: PhysicsBody_new_def Physics_new_def)
qed

section \<open>No test of the direction of motion\<close>






section \<open>The physics step\<close>









text \<open>
  Claim C7 says that the perturbation is added exactly when the body's horizontal speed
  exceeds the threshold. The test of the code is on the x and the y (vertical)
  velocity. Here a body at rest in an empty world is stepped once: after gravity its
  velocity is \<open>(0, -1/4, 0)\<close>, with no horizontal speed at all, and the step still adds
  the perturbation (\<open>-1/20\<close> for the draw 0) to its x velocity.
\<close>

theorem perturbation_without_horizontal_speed:
  "integrate Physics_new (1 / 60) PhysicsBody_new
     = PhysicsBody_new\<lparr>position := \<lparr>c0 = 0, c1 = - 1 / 240, c2 = 0\<rparr>,
                       velocity := \<lparr>c0 = 0, c1 = - 1 / 4, c2 = 0\<rparr>\<rparr>
   \<and> updateBody Physics_new (1 / 60) (\<lambda>k. 0) 0 PhysicsBody_new
     = Inr (PhysicsBody_new\<lparr>position := \<lparr>c0 = 0, c1 = - 1 / 240, c2 = 0\<rparr>,
                            velocity := \<lparr>c0 = - 1 / 20, c1 = - 1 / 4, c2 = 0\<rparr>\<rparr>, [], 1)"
  by (simp add: updateBody_def integrate_def perturb_def Let_def Physics_new_def PhysicsBody_new_def)

text \<open>
  Claim C7, amended. In every physics step, after integration and collision resolution
  of a non-static body, the perturbation \<open>(random - 0.5) * 0.1\<close> is added to the body's
  x velocity exactly when the absolute value of its x velocity or of its y (vertical)
  velocity exceeds 0.1, and one random number is drawn; when both are at most 0.1 the
  body receives no perturbation and no number is drawn. For a draw in \<open>[0, 1)\<close> the
  perturbation lies in \<open>[-0.05, 0.05)\<close>.
\<close>

theorem perturbation_condition:
  assumes "\<not> isStatic b"
    and "collideAll ph (integrate ph fixedDelta b) (staticBodies ph) = Inr (b', calls)"
  shows "updateBody ph fixedDelta rnd n b =
           Inr (if \<bar>c0 (velocity b')\<bar> > 1 / 10 \<or> \<bar>c1 (velocity b')\<bar> > 1 / 10
                then (b'\<lparr>velocity := (velocity b')\<lparr>c0 := c0 (velocity b') + (rnd n - 1 / 2) * (1 / 10)\<rparr>\<rparr>,
                      calls, Suc n)
                else (b', calls, n))
       \<and> (0 \<le> rnd n \<and> rnd n < 1 \<longrightarrow>
            - 1 / 20 \<le> (rnd n - 1 / 2) * (1 / 10) \<and> (rnd n - 1 / 2) * (1 / 10) < 1 / 20)"
  using assms by (simp add: updateBody_def perturb_def Let_def)

theorem perturbation_condition_witness:
  "updateBody Physics_new (1 / 60) (\<lambda>k. 1 / 2) 0
      (PhysicsBody_new\<lparr>velocity := \<lparr>c0 = 0, c1 = 1 / 4, c2 = 1\<rparr>\<rparr>)
     = Inr (PhysicsBody_new\<lparr>position := \<lparr>c0 = 0, c1 = 0, c2 = 98 / 6000\<rparr>,
                            velocity := \<lparr>c0 = 0, c1 = 0, c2 = 98 / 100\<rparr>\<rparr>, [], 0)
   \<and> updateBody Physics_new (1 / 60) (\<lambda>k. 3 / 4) 0
      (PhysicsBody_new\<lparr>velocity := \<lparr>c0 = 1, c1 = 1 / 4, c2 = 0\<rparr>\<rparr>)
     = Inr (PhysicsBody_new\<lparr>position := \<lparr>c0 = 98 / 6000, c1 = 0, c2 = 0\<rparr>,
                            velocity := \<lparr>c0 = 98 / 100 + 1 / 40, c1 = 0, c2 = 0\<rparr>\<rparr>, [], 1)"
proof -
  let ?b1 = "PhysicsBody_new\<lparr>velocity := \<lparr>c0 = 0, c1 = 1 / 4, c2 = 1\<rparr>\<rparr>"
  let ?b2 = "PhysicsBody_new\<lparr>velocity := \<lparr>c0 = 1, c1 = 1 / 4, c2 = 0\<rparr>\<rparr>"
  have s: "\<not> isStatic ?b1" "\<not> isStatic ?b2" by (simp_all add: PhysicsBody_new_def)
  have c1: "collideAll Physics_new (integrate Physics_new (1 / 60) ?b1) (staticBodies Physics_new)
      = Inr (PhysicsBody_new\<lparr>position := \<lparr>c0 = 0, c1 = 0, c2 = 98 / 6000\<rparr>,
                            velocity := \<lparr>c0 = 0, c1 = 0, c2 = 98 / 100\<rparr>\<rparr>, [])"
    by (simp add: integrate_def Let_def Physics_new_def PhysicsBody_new_def)
  have c2: "collideAll Physics_new (integrate Physics_new (1 / 60) ?b2) (staticBodies Physics_new)
      = Inr (PhysicsBody_new\<lparr>position := \<lparr>c0 = 98 / 6000, c1 = 0, c2 = 0\<rparr>,
                            velocity := \<lparr>c0 = 98 / 100, c1 = 0, c2 = 0\<rparr>\<rparr>, [])"
    by (simp add: integrate_def Let_def Physics_new_def PhysicsBody_new_def)
  from perturbation_condition [OF s(1) c1, of "\<lambda>k. 1 / 2" 0]
  have r1: "updateBody Physics_new (1 / 60) (\<lambda>k. 1 / 2) 0 ?b1
     = Inr (PhysicsBody_new\<lparr>position := \<lparr>c0 = 0, c1 = 0, c2 = 98 / 6000\<rparr>,
                            velocity := \<lparr>c0 = 0, c1 = 0, c2 = 98 / 100\<rparr>\<rparr>, [], 0)"
    by (simp add: PhysicsBody_new_def)
  from perturbation_condition [OF s(2) c2, of "\<lambda>k. 3 / 4" 0]
  have r2: "updateBody Physics_new (1 / 60) (\<lambda>k. 3 / 4) 0 ?b2
     = Inr (PhysicsBody_new\<lparr>position := \<lparr>c0 = 98 / 6000, c1 = 0, c2 = 0\<rparr>,
                            velocity := \<lparr>c0 = 98 / 100 + 1 / 40, c1 = 0, c2 = 0\<rparr>\<rparr>, [], 1)"
    by (simp add: PhysicsBody_new_def)
  from r1 r2 show ?thesis by simp
qed

section \<open>The ball lifecycle\<close>

lemma slotLoop_Some:
  "slotLoop sl x = Some s \<Longrightarrow> s \<in> set sl \<and> minX s \<le> x \<and> x \<le> maxX s"
  by (induction sl) (auto split: if_splits)

lemma updateBall_events:
  "length (fst (snd (updateBall sl ball))) \<le> 1"
  by (simp add: updateBall_def split: option.split)

lemma updateBall_scored:
  "scored ball \<Longrightarrow> updateBall sl ball = (ball, [], c1 (position (body ball)) < - 2)"
  by (simp add: updateBall_def)

lemma updateBall_event_sets_scored:
  "fst (snd (updateBall sl ball)) \<noteq> [] \<Longrightarrow> scored (fst (updateBall sl ball))"
  by (auto simp add: updateBall_def split: option.splits if_splits)

lemma updateBall_keeps_scored:
  "scored ball \<Longrightarrow> scored (fst (updateBall sl ball))"
  by (simp add: updateBall_scored)

lemma frames_scored:
  "scored ball \<Longrightarrow> frames sl ball bs = []"
proof (induction bs arbitrary: ball)
  case Nil
  show ?case by simp
next
  case (Cons b bs)
  have s: "scored (ball\<lparr>body := b\<rparr>)" using Cons.prems by simp
  show ?case
    by (simp add: updateBall_scored [OF s] Cons.IH [OF s])
qed

lemma frames_at_most_one:
  "length (frames sl ball bs) \<le> 1"
proof (induction bs arbitrary: ball)
  case Nil
  show ?case by simp
next
  case (Cons b bs)
  obtain ball' events gone where u: "updateBall sl (ball\<lparr>body := b\<rparr>) = (ball', events, gone)"
    by (cases "updateBall sl (ball\<lparr>body := b\<rparr>)") auto
  show ?case
  proof (cases "events = []")
    case True
    with u Cons.IH [of ball'] show ?thesis by simp
  next
    case False
    with u updateBall_event_sets_scored [of sl "ball\<lparr>body := b\<rparr>"]
    have "scored ball'" by simp
    then have "frames sl ball' bs = []" by (rule frames_scored)
    moreover from u updateBall_events [of sl "ball\<lparr>body := b\<rparr>"] have "length events \<le> 1" by simp
    ultimately show ?thesis using u by simp
  qed
qed

text \<open>
  Claim C3. Over any sequence of lifecycle updates of a ball, whatever state the physics
  step leaves in its body before each of them, the score event is emitted at most once:
  a ball that has scored emits nothing in any later update, however long it stays below
  the scoring altitude; an update that emits an event marks the ball as scored; and one
  update emits at most one event, for the first matching slot only.
\<close>

theorem score_event_at_most_once:
  "length (frames sl ball bs) \<le> 1
   \<and> (scored ball \<longrightarrow> frames sl ball bs = [] \<and> fst (snd (updateBall sl ball)) = [])
   \<and> (fst (snd (updateBall sl ball)) \<noteq> [] \<longrightarrow>
        scored (fst (updateBall sl ball))
        \<and> (\<exists>s. slotLoop sl (c0 (position (body ball))) = Some s
                \<and> fst (snd (updateBall sl ball)) = [points s]))
   \<and> length (fst (snd (updateBall sl ball))) \<le> 1"
proof (intro conjI impI)
  show "length (frames sl ball bs) \<le> 1" by (rule frames_at_most_one)
  show "frames sl ball bs = []" if "scored ball" using that by (rule frames_scored)
  show "fst (snd (updateBall sl ball)) = []" if "scored ball"
    using that by (simp add: updateBall_scored)
  show "scored (fst (updateBall sl ball))" if "fst (snd (updateBall sl ball)) \<noteq> []"
    using that by (rule updateBall_event_sets_scored)
  show "\<exists>s. slotLoop sl (c0 (position (body ball))) = Some s
           \<and> fst (snd (updateBall sl ball)) = [points s]"
    if "fst (snd (updateBall sl ball)) \<noteq> []"
    using that by (auto simp add: updateBall_def split: option.splits if_splits)
  show "length (fst (snd (updateBall sl ball))) \<le> 1" by (rule updateBall_events)
qed

theorem score_event_at_most_once_witness:
  "frames [\<lparr>slot_x = 0, minX = - 1, maxX = 1, points = 500\<rparr>]
      \<lparr>body = PhysicsBody_new, scored = False, onScore = True\<rparr>
      [PhysicsBody_new\<lparr>position := \<lparr>c0 = 0, c1 = 4 / 10, c2 = 0\<rparr>\<rparr>,
       PhysicsBody_new\<lparr>position := \<lparr>c0 = 0, c1 = 3 / 10, c2 = 0\<rparr>\<rparr>,
       PhysicsBody_new\<lparr>position := \<lparr>c0 = 0, c1 = 2 / 10, c2 = 0\<rparr>\<rparr>] = [500]
   \<and> updateBall [\<lparr>slot_x = 0, minX = - 1, maxX = 1, points = 500\<rparr>]
        \<lparr>body = PhysicsBody_new, scored = False, onScore = True\<rparr>
       = (\<lparr>body = PhysicsBody_new, scored = True, onScore = True\<rparr>, [500], False)
   \<and> scored (fst (updateBall [\<lparr>slot_x = 0, minX = - 1, maxX = 1, points = 500\<rparr>]
        \<lparr>body = PhysicsBody_new, scored = False, onScore = True\<rparr>))
   \<and> frames [\<lparr>slot_x = 0, minX = - 1, maxX = 1, points = 500\<rparr>]
      \<lparr>body = PhysicsBody_new, scored = True, onScore = True\<rparr>
      [PhysicsBody_new\<lparr>position := \<lparr>c0 = 0, c1 = 4 / 10, c2 = 0\<rparr>\<rparr>,
       PhysicsBody_new\<lparr>position := \<lparr>c0 = 0, c1 = 3 / 10, c2 = 0\<rparr>\<rparr>,
       PhysicsBody_new\<lparr>position := \<lparr>c0 = 0, c1 = 2 / 10, c2 = 0\<rparr>\<rparr>] = []"
proof -
  let ?sl = "[\<lparr>slot_x = 0, minX = - 1, maxX = 1, points = 500\<rparr>]"
  let ?ball = "\<lparr>body = PhysicsBody_new, scored = False, onScore = True\<rparr>"
  let ?done = "\<lparr>body = PhysicsBody_new, scored = True, onScore = True\<rparr>"
  let ?bs = "[PhysicsBody_new\<lparr>position := \<lparr>c0 = 0, c1 = 4 / 10, c2 = 0\<rparr>\<rparr>,
       PhysicsBody_new\<lparr>position := \<lparr>c0 = 0, c1 = 3 / 10, c2 = 0\<rparr>\<rparr>,
       PhysicsBody_new\<lparr>position := \<lparr>c0 = 0, c1 = 2 / 10, c2 = 0\<rparr>\<rparr>]"
  have u: "updateBall ?sl ?ball = (?done, [500], False)"
    by (simp add: updateBall_def PhysicsBody_new_def)
  have f: "frames ?sl ?ball ?bs = [500]"
    by (simp add: updateBall_def PhysicsBody_new_def)
  have e: "fst (snd (updateBall ?sl ?ball)) \<noteq> []" by (simp add: u)
  from score_event_at_most_once [of ?sl ?ball ?bs] e
  have a: "scored (fst (updateBall ?sl ?ball))" by blast
  have "scored ?done" by simp
  with score_event_at_most_once [of ?sl ?done ?bs]
  have b: "frames ?sl ?done ?bs = []" by blast
  from u f a b show ?thesis by simp
qed

text \<open>
  The same bound for the whole machine: one call of \<^verbatim>\<open>PachinkoMachine.update\<close> emits no
  more events than it takes balls out of the set of balls that have not scored.
\<close>

lemma updateBall_budget:
  "length (fst (snd (updateBall sl ball)))
     + (if scored (fst (updateBall sl ball)) then 0 else 1)
   \<le> (if scored ball then 0 else 1)"
  by (simp add: updateBall_def split: option.split)

lemma update_machine_budget:
  "length (fst (snd (update_machine m)))
     + length (filter (\<lambda>ball. \<not> scored ball) (balls (fst (update_machine m))))
   \<le> length (filter (\<lambda>ball. \<not> scored ball) (balls m))"
proof -
  let ?step = "\<lambda>ball (acc, events, removed).
                     let (ball', ev, gone) = updateBall (slots m) ball
                     in (if gone then acc else ball' # acc,
                         events @ ev,
                         removed @ (if gone then [body ball'] else []))"
  have "length (fst (snd (foldr ?step bl ([], [], []))))
          + length (filter (\<lambda>ball. \<not> scored ball) (fst (foldr ?step bl ([], [], []))))
        \<le> length (filter (\<lambda>ball. \<not> scored ball) bl)" for bl
  proof (induction bl)
    case Nil
    show ?case by simp
  next
    case (Cons ball bl)
    obtain acc events removed where r: "foldr ?step bl ([], [], []) = (acc, events, removed)"
      by (cases "foldr ?step bl ([], [], [])") auto
    obtain ball' ev gone where u: "updateBall (slots m) ball = (ball', ev, gone)"
      by (cases "updateBall (slots m) ball") auto
    from updateBall_budget [of "slots m" ball] u
    have "length ev + (if scored ball' then 0 else 1) \<le> (if scored ball then 0 else 1)"
      by simp
    with Cons.IH r u show ?case
      by (auto split: if_splits)
  qed
  note bound = this [of "balls m"]
  obtain acc events removed where r: "foldr ?step (balls m) ([], [], []) = (acc, events, removed)"
    by (cases "foldr ?step (balls m) ([], [], [])") auto
  from bound r show ?thesis
    by (simp add: update_machine_def)
qed

section \<open>The slots of the board\<close>

















































end
